theory Spec2Isabelle
  imports Main
begin

section \<open>JavaScript values, errors and effects\<close>

text \<open>
  The values that \<^verbatim>\<open>JSON.parse\<close> produces, together with \<^verbatim>\<open>undefined\<close>, which
  a read of a missing property yields. A number is kept as the exact decimal
  \<open>m * 10 ^ e\<close> of its literal, in normal form (\<open>m = 0\<close> with \<open>e = 0\<close>, or \<open>m\<close> not
  divisible by ten); JavaScript rounds it to a double, which changes neither its
  printed form nor whether it is zero for literals of at most 15 significant digits
  within the range of doubles. A string is the UTF-8 text of the JavaScript string.
  An object is the list of its own properties in the order of their enumeration,
  without duplicate keys.
\<close>

datatype jsvalue =
    JUndefined
  | JNull
  | JBool bool
  | JNumber int int
  | JString string
  | JArray "jsvalue list"
  | JObject "(string \<times> jsvalue) list"

datatype js_error = SyntaxError | TypeError | ZodError | OtherError

datatype 'a completion = Returns 'a | Throws js_error

text \<open>\<^verbatim>\<open>!v\<close> is \<open>\<not> truthy v\<close>.\<close>

fun truthy :: "jsvalue \<Rightarrow> bool" where
  "truthy JUndefined = False"
| "truthy JNull = False"
| "truthy (JBool b) = b"
| "truthy (JNumber m e) = (m \<noteq> 0)"
| "truthy (JString s) = (s \<noteq> [])"
| "truthy (JArray xs) = True"
| "truthy (JObject kvs) = True"

fun typeof :: "jsvalue \<Rightarrow> string" where
  "typeof JUndefined = ''undefined''"
| "typeof JNull = ''object''"
| "typeof (JBool b) = ''boolean''"
| "typeof (JNumber m e) = ''number''"
| "typeof (JString s) = ''string''"
| "typeof (JArray xs) = ''object''"
| "typeof (JObject kvs) = ''object''"

text \<open>
  \<^verbatim>\<open>v.name\<close> for a name that no built-in prototype defines (\<^verbatim>\<open>event\<close> and \<^verbatim>\<open>data\<close>
  are such names): reading a property of \<^verbatim>\<open>null\<close> or \<^verbatim>\<open>undefined\<close> throws a
  TypeError, an object yields its own property, and every other value yields
  \<^verbatim>\<open>undefined\<close>.
\<close>

fun get_property :: "jsvalue \<Rightarrow> string \<Rightarrow> jsvalue completion" where
  "get_property JUndefined name = Throws TypeError"
| "get_property JNull name = Throws TypeError"
| "get_property (JObject kvs) name =
     (case map_of kvs name of None \<Rightarrow> Returns JUndefined | Some v \<Rightarrow> Returns v)"
| "get_property v name = Returns JUndefined"

section \<open>The JSON codec\<close>

subsection \<open>Characters and numbers\<close>

definition is_digit :: "char \<Rightarrow> bool" where
  "is_digit c = (48 \<le> (of_char c :: nat) \<and> (of_char c :: nat) \<le> 57)"

definition is_lower :: "char \<Rightarrow> bool" where
  "is_lower c = (97 \<le> (of_char c :: nat) \<and> (of_char c :: nat) \<le> 122)"

definition is_ws :: "char \<Rightarrow> bool" where
  "is_ws c = (c = CHR 0x20 \<or> c = CHR 0x09 \<or> c = CHR 0x0A \<or> c = CHR 0x0D)"

definition digit_value :: "char \<Rightarrow> int" where
  "digit_value c = of_char c - 48"

definition hex_value :: "char \<Rightarrow> nat option" where
  "hex_value c =
     (let n = (of_char c :: nat) in
      if 48 \<le> n \<and> n \<le> 57 then Some (n - 48)
      else if 65 \<le> n \<and> n \<le> 70 then Some (n - 55)
      else if 97 \<le> n \<and> n \<le> 102 then Some (n - 87)
      else None)"

definition hex_char :: "nat \<Rightarrow> char" where
  "hex_char n = ''0123456789abcdef'' ! (n mod 16)"

definition digits_value :: "string \<Rightarrow> int" where
  "digits_value ds = foldl (\<lambda>a c. 10 * a + digit_value c) 0 ds"

fun digits :: "nat \<Rightarrow> string" where
  "digits n =
     (if n < 10 then [hex_char n] else digits (n div 10) @ [hex_char (n mod 10)])"

text \<open>The decimal \<open>ds * 10 ^ e\<close> in normal form, \<open>ds\<close> being a string of digits.\<close>

definition decimal :: "bool \<Rightarrow> string \<Rightarrow> int \<Rightarrow> int \<times> int" where
  "decimal negative ds e =
     (let z = length (takeWhile (\<lambda>c. c = CHR ''0'') (rev ds));
          m = digits_value (take (length ds - z) ds)
      in if m = 0 then (0, 0)
         else ((if negative then - m else m), e + int z))"

text \<open>
  The number grammar of JSON: an optional minus, an integer part without a leading
  zero, an optional fraction and an optional exponent.
\<close>

definition number_exponent :: "string \<Rightarrow> int option" where
  "number_exponent t =
     (case t of
        [] \<Rightarrow> Some 0
      | c # r \<Rightarrow>
          if c = CHR ''e'' \<or> c = CHR ''E'' then
            (let negative = (case r of [] \<Rightarrow> False | s # _ \<Rightarrow> s = CHR ''-'');
                 ds = (case r of [] \<Rightarrow> []
                       | s # r' \<Rightarrow> if s = CHR ''-'' \<or> s = CHR ''+'' then r' else r)
             in if ds \<noteq> [] \<and> list_all is_digit ds
                then Some (if negative then - digits_value ds else digits_value ds)
                else None)
          else None)"

definition number_literal :: "string \<Rightarrow> (int \<times> int) option" where
  "number_literal t =
     (let negative = (case t of [] \<Rightarrow> False | c # _ \<Rightarrow> c = CHR ''-'');
          t1 = (if negative then tl t else t);
          ip = takeWhile is_digit t1;
          t2 = dropWhile is_digit t1;
          fraction = (case t2 of [] \<Rightarrow> False | c # _ \<Rightarrow> c = CHR ''.'');
          fp = (if fraction then takeWhile is_digit (tl t2) else []);
          t3 = (if fraction then dropWhile is_digit (tl t2) else t2)
      in if ip = [] \<or> (hd ip = CHR ''0'' \<and> length ip \<noteq> 1) \<or> (fraction \<and> fp = [])
         then None
         else (case number_exponent t3 of
                 None \<Rightarrow> None
               | Some e \<Rightarrow> Some (decimal negative (ip @ fp) (e - int (length fp)))))"

text \<open>
  \<^verbatim>\<open>Number.prototype.toString\<close> of the decimal \<open>m * 10 ^ e\<close> in normal form: with \<open>k\<close>
  digits and \<open>n = k + e\<close>, plain digits up to \<open>n = 21\<close>, a leading \<^verbatim>\<open>0.\<close> down to
  \<open>n = -5\<close>, and the exponent form otherwise.
\<close>

definition number_to_string :: "int \<Rightarrow> int \<Rightarrow> string" where
  "number_to_string m e =
     (if m = 0 then ''0''
      else
        (let ds = digits (nat \<bar>m\<bar>);
             k = int (length ds);
             n = k + e;
             body =
               (if k \<le> n \<and> n \<le> 21 then ds @ replicate (nat (n - k)) (CHR ''0'')
                else if 0 < n \<and> n \<le> 21 then take (nat n) ds @ ''.'' @ drop (nat n) ds
                else if - 6 < n \<and> n \<le> 0 then ''0.'' @ replicate (nat (- n)) (CHR ''0'') @ ds
                else take 1 ds @ (if k = 1 then [] else ''.'' @ drop 1 ds) @ ''e''
                     @ (if 0 < n then ''+'' else ''-'') @ digits (nat \<bar>n - 1\<bar>))
         in (if m < 0 then ''-'' else []) @ body))"

subsection \<open>Strings\<close>

text \<open>
  The UTF-8 bytes of a code point. A \<^verbatim>\<open>\u\<close> escape names a UTF-16 code unit: a high
  surrogate followed by a low one is one code point, and a surrogate on its own is
  kept as the three bytes of its value.
\<close>

definition utf8 :: "nat \<Rightarrow> string" where
  "utf8 n =
     (if n < 0x80 then [char_of n]
      else if n < 0x800 then [char_of (0xC0 + n div 0x40), char_of (0x80 + n mod 0x40)]
      else if n < 0x10000 then
        [char_of (0xE0 + n div 0x1000), char_of (0x80 + n div 0x40 mod 0x40),
         char_of (0x80 + n mod 0x40)]
      else
        [char_of (0xF0 + n div 0x40000), char_of (0x80 + n div 0x1000 mod 0x40),
         char_of (0x80 + n div 0x40 mod 0x40), char_of (0x80 + n mod 0x40)])"

definition is_high_surrogate :: "nat \<Rightarrow> bool" where
  "is_high_surrogate u = (0xD800 \<le> u \<and> u < 0xDC00)"

definition is_low_surrogate :: "nat \<Rightarrow> bool" where
  "is_low_surrogate u = (0xDC00 \<le> u \<and> u < 0xE000)"

definition surrogate_pair :: "nat \<Rightarrow> nat \<Rightarrow> nat" where
  "surrogate_pair hi lo = 0x10000 + (hi - 0xD800) * 0x400 + (lo - 0xDC00)"

definition flush :: "nat option \<Rightarrow> string" where
  "flush p = (case p of None \<Rightarrow> [] | Some hi \<Rightarrow> utf8 hi)"

definition simple_escape :: "char \<Rightarrow> char option" where
  "simple_escape c =
     (if c = CHR 0x22 then Some (CHR 0x22)
      else if c = CHR 0x5C then Some (CHR 0x5C)
      else if c = CHR ''/'' then Some (CHR ''/'')
      else if c = CHR ''b'' then Some (CHR 0x08)
      else if c = CHR ''f'' then Some (CHR 0x0C)
      else if c = CHR ''n'' then Some (CHR 0x0A)
      else if c = CHR ''r'' then Some (CHR 0x0D)
      else if c = CHR ''t'' then Some (CHR 0x09)
      else None)"

subsection \<open>\<^verbatim>\<open>JSON.parse\<close>\<close>

datatype token =
    TLBrace | TRBrace | TLBracket | TRBracket | TColon | TComma
  | TString string | TNumber int int | TTrue | TFalse | TNull

text \<open>
  The scanner reads one character at a time. Inside a string it holds the text read
  so far and a high surrogate that waits for its low one; inside a \<^verbatim>\<open>\u\<close> escape
  also the hexadecimal digits read; inside a name or a number the characters read.
\<close>

datatype lex_state =
    LDefault
  | LString string "nat option"
  | LEscape string "nat option"
  | LUnicode string "nat option" "nat list"
  | LWord string
  | LNumber string

definition word_token :: "string \<Rightarrow> token option" where
  "word_token w =
     (if w = ''true'' then Some TTrue
      else if w = ''false'' then Some TFalse
      else if w = ''null'' then Some TNull
      else None)"

definition number_token :: "string \<Rightarrow> token option" where
  "number_token t =
     (case number_literal t of None \<Rightarrow> None | Some (m, e) \<Rightarrow> Some (TNumber m e))"

definition punctuation :: "char \<Rightarrow> token option" where
  "punctuation c =
     (if c = CHR ''{'' then Some TLBrace
      else if c = CHR ''}'' then Some TRBrace
      else if c = CHR ''['' then Some TLBracket
      else if c = CHR '']'' then Some TRBracket
      else if c = CHR '':'' then Some TColon
      else if c = CHR '','' then Some TComma
      else None)"

definition unicode_escape :: "string \<Rightarrow> nat option \<Rightarrow> nat \<Rightarrow> lex_state" where
  "unicode_escape s p u =
     (case p of
        Some hi \<Rightarrow>
          if is_low_surrogate u then LString (s @ utf8 (surrogate_pair hi u)) None
          else if is_high_surrogate u then LString (s @ utf8 hi) (Some u)
          else LString (s @ utf8 hi @ utf8 u) None
      | None \<Rightarrow>
          if is_high_surrogate u then LString s (Some u)
          else LString (s @ utf8 u) None)"

text \<open>
  One character in a state: the tokens completed by it and the next state, or
  \<open>None\<close> where the text is not JSON.
\<close>

definition lex_default :: "char \<Rightarrow> (token list \<times> lex_state) option" where
  "lex_default c =
     (if is_ws c then Some ([], LDefault)
      else if c = CHR 0x22 then Some ([], LString [] None)
      else if c = CHR ''-'' \<or> is_digit c then Some ([], LNumber [c])
      else if is_lower c then Some ([], LWord [c])
      else (case punctuation c of None \<Rightarrow> None | Some t \<Rightarrow> Some ([t], LDefault)))"

fun lex_char :: "lex_state \<Rightarrow> char \<Rightarrow> (token list \<times> lex_state) option" where
  "lex_char LDefault c = lex_default c"
| "lex_char (LString s p) c =
     (if c = CHR 0x22 then Some ([TString (s @ flush p)], LDefault)
      else if c = CHR 0x5C then Some ([], LEscape s p)
      else if (of_char c :: nat) < 0x20 then None
      else Some ([], LString (s @ flush p @ [c]) None))"
| "lex_char (LEscape s p) c =
     (if c = CHR ''u'' then Some ([], LUnicode s p [])
      else (case simple_escape c of
              None \<Rightarrow> None
            | Some d \<Rightarrow> Some ([], LString (s @ flush p @ [d]) None)))"
| "lex_char (LUnicode s p hs) c =
     (case hex_value c of
        None \<Rightarrow> None
      | Some h \<Rightarrow>
          if length hs < 3 then Some ([], LUnicode s p (hs @ [h]))
          else Some ([], unicode_escape s p (foldl (\<lambda>a d. 16 * a + d) 0 (hs @ [h]))))"
| "lex_char (LWord w) c =
     (if is_lower c then Some ([], LWord (w @ [c]))
      else (case word_token w of
              None \<Rightarrow> None
            | Some t \<Rightarrow>
                (case lex_default c of
                   None \<Rightarrow> None
                 | Some (ts, st) \<Rightarrow> Some (t # ts, st))))"
| "lex_char (LNumber n) c =
     (if is_digit c \<or> c = CHR ''.'' \<or> c = CHR ''e'' \<or> c = CHR ''E'' \<or> c = CHR ''+''
         \<or> c = CHR ''-''
      then Some ([], LNumber (n @ [c]))
      else (case number_token n of
              None \<Rightarrow> None
            | Some t \<Rightarrow>
                (case lex_default c of
                   None \<Rightarrow> None
                 | Some (ts, st) \<Rightarrow> Some (t # ts, st))))"

fun lex_end :: "lex_state \<Rightarrow> token list option" where
  "lex_end LDefault = Some []"
| "lex_end (LWord w) = (case word_token w of None \<Rightarrow> None | Some t \<Rightarrow> Some [t])"
| "lex_end (LNumber n) = (case number_token n of None \<Rightarrow> None | Some t \<Rightarrow> Some [t])"
| "lex_end st = None"

fun lex :: "lex_state \<Rightarrow> string \<Rightarrow> token list option" where
  "lex st [] = lex_end st"
| "lex st (c # cs) =
     (case lex_char st c of
        None \<Rightarrow> None
      | Some (ts, st') \<Rightarrow> (case lex st' cs of None \<Rightarrow> None | Some ts' \<Rightarrow> Some (ts @ ts')))"

text \<open>
  The parser keeps a stack of the arrays and objects that are open, and what the
  grammar allows next.
\<close>

datatype frame =
    ArrayFrame "jsvalue list"
  | ObjectFrame "(string \<times> jsvalue) list" "string option"

datatype expect = EValue | EValueOrClose | ECommaOrClose | EKey | EKeyOrClose | EColon

datatype parser_state = Parsing "frame list" expect | Finished jsvalue

text \<open>
  The own properties of an object are enumerated with the array indices first, in
  ascending order, and then the other keys in the order of their creation. Defining
  a property that the object has already replaces its value in place.
\<close>

definition is_index :: "string \<Rightarrow> bool" where
  "is_index k =
     (k \<noteq> [] \<and> list_all is_digit k \<and> (length k = 1 \<or> hd k \<noteq> CHR ''0'')
      \<and> digits_value k < 4294967295)"

fun insert_index ::
  "(string \<times> jsvalue) list \<Rightarrow> string \<Rightarrow> jsvalue \<Rightarrow> (string \<times> jsvalue) list" where
  "insert_index [] k v = [(k, v)]"
| "insert_index ((k', v') # kvs) k v =
     (if is_index k' \<and> digits_value k' < digits_value k
      then (k', v') # insert_index kvs k v
      else (k, v) # (k', v') # kvs)"

definition define_property ::
  "(string \<times> jsvalue) list \<Rightarrow> string \<Rightarrow> jsvalue \<Rightarrow> (string \<times> jsvalue) list" where
  "define_property kvs k v =
     (if list_ex (\<lambda>p. fst p = k) kvs
      then map (\<lambda>p. if fst p = k then (k, v) else p) kvs
      else if is_index k then insert_index kvs k v
      else kvs @ [(k, v)])"

fun deliver :: "jsvalue \<Rightarrow> frame list \<Rightarrow> parser_state option" where
  "deliver v [] = Some (Finished v)"
| "deliver v (ArrayFrame xs # fs) = Some (Parsing (ArrayFrame (xs @ [v]) # fs) ECommaOrClose)"
| "deliver v (ObjectFrame kvs (Some k) # fs) =
     Some (Parsing (ObjectFrame (define_property kvs k v) None # fs) ECommaOrClose)"
| "deliver v (ObjectFrame kvs None # fs) = None"

definition value_expected :: "expect \<Rightarrow> bool" where
  "value_expected ex = (ex = EValue \<or> ex = EValueOrClose)"

fun parse_token :: "frame list \<Rightarrow> expect \<Rightarrow> token \<Rightarrow> parser_state option" where
  "parse_token fs ex (TString s) =
     (if ex = EKey \<or> ex = EKeyOrClose then
        (case fs of
           ObjectFrame kvs None # fs' \<Rightarrow> Some (Parsing (ObjectFrame kvs (Some s) # fs') EColon)
         | _ \<Rightarrow> None)
      else if value_expected ex then deliver (JString s) fs
      else None)"
| "parse_token fs ex (TNumber m e) =
     (if value_expected ex then deliver (JNumber m e) fs else None)"
| "parse_token fs ex TTrue = (if value_expected ex then deliver (JBool True) fs else None)"
| "parse_token fs ex TFalse = (if value_expected ex then deliver (JBool False) fs else None)"
| "parse_token fs ex TNull = (if value_expected ex then deliver JNull fs else None)"
| "parse_token fs ex TLBracket =
     (if value_expected ex then Some (Parsing (ArrayFrame [] # fs) EValueOrClose) else None)"
| "parse_token fs ex TLBrace =
     (if value_expected ex then Some (Parsing (ObjectFrame [] None # fs) EKeyOrClose) else None)"
| "parse_token fs ex TRBracket =
     (if ex = EValueOrClose \<or> ex = ECommaOrClose then
        (case fs of ArrayFrame xs # fs' \<Rightarrow> deliver (JArray xs) fs' | _ \<Rightarrow> None)
      else None)"
| "parse_token fs ex TRBrace =
     (if ex = EKeyOrClose \<or> ex = ECommaOrClose then
        (case fs of ObjectFrame kvs None # fs' \<Rightarrow> deliver (JObject kvs) fs' | _ \<Rightarrow> None)
      else None)"
| "parse_token fs ex TComma =
     (if ex = ECommaOrClose then
        (case fs of
           ArrayFrame xs # fs' \<Rightarrow> Some (Parsing fs EValue)
         | ObjectFrame kvs k # fs' \<Rightarrow> Some (Parsing fs EKey)
         | [] \<Rightarrow> None)
      else None)"
| "parse_token fs ex TColon = (if ex = EColon then Some (Parsing fs EValue) else None)"

fun parse_tokens :: "parser_state \<Rightarrow> token list \<Rightarrow> jsvalue option" where
  "parse_tokens (Finished v) [] = Some v"
| "parse_tokens (Parsing fs ex) [] = None"
| "parse_tokens (Finished v) (t # ts) = None"
| "parse_tokens (Parsing fs ex) (t # ts) =
     (case parse_token fs ex t of None \<Rightarrow> None | Some st \<Rightarrow> parse_tokens st ts)"

text \<open>\<^verbatim>\<open>JSON.parse(text)\<close>: the value, or a SyntaxError where the text is not JSON.\<close>

definition JSON_parse :: "string \<Rightarrow> jsvalue completion" where
  "JSON_parse text =
     (case lex LDefault text of
        None \<Rightarrow> Throws SyntaxError
      | Some ts \<Rightarrow>
          (case parse_tokens (Parsing [] EValue) ts of
             None \<Rightarrow> Throws SyntaxError
           | Some v \<Rightarrow> Returns v))"

subsection \<open>\<^verbatim>\<open>JSON.stringify\<close>\<close>

definition hex4 :: "nat \<Rightarrow> string" where
  "hex4 n = [hex_char (n div 4096), hex_char (n div 256), hex_char (n div 16), hex_char n]"

definition escape_char :: "char \<Rightarrow> string" where
  "escape_char c =
     (if c = CHR 0x08 then [CHR 0x5C, CHR ''b'']
      else if c = CHR 0x09 then [CHR 0x5C, CHR ''t'']
      else if c = CHR 0x0A then [CHR 0x5C, CHR ''n'']
      else if c = CHR 0x0C then [CHR 0x5C, CHR ''f'']
      else if c = CHR 0x0D then [CHR 0x5C, CHR ''r'']
      else if c = CHR 0x22 then [CHR 0x5C, CHR 0x22]
      else if c = CHR 0x5C then [CHR 0x5C, CHR 0x5C]
      else if (of_char c :: nat) < 0x20 then [CHR 0x5C, CHR ''u''] @ hex4 (of_char c)
      else [c])"

text \<open>
  The characters of a string between its quotes. The three bytes of a surrogate on
  its own are written as a \<^verbatim>\<open>\u\<close> escape.
\<close>

fun quote_chars :: "string \<Rightarrow> string" where
  "quote_chars (c # b # d # cs) =
     (if c = CHR 0xED \<and> 0xA0 \<le> (of_char b :: nat)
      then [CHR 0x5C, CHR ''u'']
           @ hex4 (0xD000 + ((of_char b :: nat) - 0x80) * 0x40 + ((of_char d :: nat) - 0x80))
           @ quote_chars cs
      else escape_char c @ quote_chars (b # d # cs))"
| "quote_chars (c # cs) = escape_char c @ quote_chars cs"
| "quote_chars [] = []"

definition quote :: "string \<Rightarrow> string" where
  "quote s = [CHR 0x22] @ quote_chars s @ [CHR 0x22]"

fun join :: "string list \<Rightarrow> string" where
  "join [] = []"
| "join [t] = t"
| "join (t # ts) = t @ '','' @ join ts"

text \<open>
  A value that has no JSON text (\<^verbatim>\<open>undefined\<close>) is \<open>None\<close>: an array writes
  \<^verbatim>\<open>null\<close> in its place and an object leaves the property out.
\<close>

fun serialize :: "jsvalue \<Rightarrow> string option"
  and serialize_elements :: "jsvalue list \<Rightarrow> string list"
  and serialize_members :: "(string \<times> jsvalue) list \<Rightarrow> string list" where
  "serialize JUndefined = None"
| "serialize JNull = Some ''null''"
| "serialize (JBool b) = Some (if b then ''true'' else ''false'')"
| "serialize (JNumber m e) = Some (number_to_string m e)"
| "serialize (JString s) = Some (quote s)"
| "serialize (JArray xs) = Some (''['' @ join (serialize_elements xs) @ '']'')"
| "serialize (JObject kvs) = Some (''{'' @ join (serialize_members kvs) @ ''}'')"
| "serialize_elements [] = []"
| "serialize_elements (x # xs) =
     (case serialize x of None \<Rightarrow> ''null'' | Some t \<Rightarrow> t) # serialize_elements xs"
| "serialize_members [] = []"
| "serialize_members ((k, v) # kvs) =
     (case serialize v of None \<Rightarrow> [] | Some t \<Rightarrow> [quote k @ '':'' @ t])
     @ serialize_members kvs"

text \<open>\<^verbatim>\<open>JSON.stringify(value)\<close>: a string, or \<^verbatim>\<open>undefined\<close>.\<close>

definition JSON_stringify :: "jsvalue \<Rightarrow> jsvalue" where
  "JSON_stringify v = (case serialize v of None \<Rightarrow> JUndefined | Some t \<Rightarrow> JString t)"

subsection \<open>Property keys\<close>

text \<open>
  \<^verbatim>\<open>o[v]\<close> reads the property named by the string of \<^verbatim>\<open>v\<close>: an array is the strings
  of its elements joined by commas, with \<^verbatim>\<open>null\<close> and \<^verbatim>\<open>undefined\<close> empty.
\<close>

fun to_string :: "jsvalue \<Rightarrow> string"
  and to_string_elements :: "jsvalue list \<Rightarrow> string list" where
  "to_string JUndefined = ''undefined''"
| "to_string JNull = ''null''"
| "to_string (JBool b) = (if b then ''true'' else ''false'')"
| "to_string (JNumber m e) = number_to_string m e"
| "to_string (JString s) = s"
| "to_string (JArray xs) = join (to_string_elements xs)"
| "to_string (JObject kvs) = ''[object Object]''"
| "to_string_elements [] = []"
| "to_string_elements (x # xs) =
     (if x = JNull \<or> x = JUndefined then [] else to_string x) # to_string_elements xs"

section \<open>Effects\<close>

text \<open>
  What a call does besides returning: the writes to sockets, the calls of a
  validator's \<^verbatim>\<open>parse\<close>, of a handler and of the four error hooks, each with its
  argument, in the order in which they happen. A socket is the identity of the
  \<^verbatim>\<open>WebSocket\<close> object. A run is the effects of a call with how it completes.
\<close>

type_synonym socket = nat

datatype effect =
    SocketSend socket jsvalue
  | ValidatorParse string jsvalue
  | HandlerCall string jsvalue
  | PayloadIsNonJSON jsvalue
  | MalformedJSON jsvalue
  | UnrecognisedEvent jsvalue
  | InvalidPayload jsvalue

type_synonym 'a run = "effect list \<times> 'a completion"

definition return :: "'a \<Rightarrow> 'a run" where
  "return v = ([], Returns v)"

definition throw :: "js_error \<Rightarrow> 'a run" where
  "throw e = ([], Throws e)"

text \<open>An expression that has no effect.\<close>

definition expr :: "'a completion \<Rightarrow> 'a run" where
  "expr c = ([], c)"

text \<open>\<^verbatim>\<open>const x = m; f(x)\<close>: a throw in \<open>m\<close> skips \<open>f\<close>.\<close>

definition and_then :: "'a run \<Rightarrow> ('a \<Rightarrow> 'b run) \<Rightarrow> 'b run" where
  "and_then m f =
     (case snd m of
        Throws e \<Rightarrow> (fst m, Throws e)
      | Returns v \<Rightarrow> (fst m @ fst (f v), snd (f v)))"

text \<open>\<^verbatim>\<open>try { m } catch (e) { h(e) }\<close>\<close>

definition try_catch :: "'a run \<Rightarrow> (js_error \<Rightarrow> 'a run) \<Rightarrow> 'a run" where
  "try_catch m h =
     (case snd m of
        Returns v \<Rightarrow> m
      | Throws e \<Rightarrow> (fst m @ fst (h e), snd (h e)))"

text \<open>
  A validator is the \<^verbatim>\<open>parse\<close> of a \<^verbatim>\<open>ZodType\<close>: it returns the parsed value or
  throws. A callback (a handler or a hook) returns, its value being ignored, or
  throws; it does not change the value it is given.
\<close>

type_synonym validator = "jsvalue \<Rightarrow> jsvalue completion"

type_synonym callback = "jsvalue \<Rightarrow> js_error option"

text \<open>\<^verbatim>\<open>f?.(arg)\<close>, the call being recorded as \<open>tag arg\<close>.\<close>

definition invoke :: "(jsvalue \<Rightarrow> effect) \<Rightarrow> callback option \<Rightarrow> jsvalue \<Rightarrow> unit run" where
  "invoke tag f arg =
     (case f of
        None \<Rightarrow> return ()
      | Some g \<Rightarrow> ([tag arg], (case g arg of None \<Rightarrow> Returns () | Some e \<Rightarrow> Throws e)))"

section \<open>The schema\<close>

text \<open>
  \<^verbatim>\<open>validators\<close> is the object given to the constructor: its own properties are
  the events of the schema. Reading \<^verbatim>\<open>this.validators[key]\<close> also finds what the
  object inherits from \<^verbatim>\<open>Object.prototype\<close>, which is no validator.
\<close>

type_synonym validators = "string \<rightharpoonup> validator"

datatype member = Own validator | Inherited | Missing

definition Object_prototype :: "string list" where
  "Object_prototype =
     [''constructor'', ''__defineGetter__'', ''__defineSetter__'', ''hasOwnProperty'',
      ''__lookupGetter__'', ''__lookupSetter__'', ''isPrototypeOf'',
      ''propertyIsEnumerable'', ''toString'', ''valueOf'', ''__proto__'',
      ''toLocaleString'']"

definition validators_get :: "validators \<Rightarrow> jsvalue \<Rightarrow> member" where
  "validators_get validators key =
     (case validators (to_string key) of
        Some v \<Rightarrow> Own v
      | None \<Rightarrow> if to_string key \<in> set Object_prototype then Inherited else Missing)"

fun member_truthy :: "member \<Rightarrow> bool" where
  "member_truthy (Own v) = True"
| "member_truthy Inherited = True"
| "member_truthy Missing = False"

text \<open>\<^verbatim>\<open>this.validators[key]!.parse(data)\<close>\<close>

definition validators_parse :: "validators \<Rightarrow> jsvalue \<Rightarrow> jsvalue \<Rightarrow> jsvalue run" where
  "validators_parse validators key data =
     (case validators_get validators key of
        Own v \<Rightarrow> ([ValidatorParse (to_string key) data], v data)
      | Inherited \<Rightarrow> throw TypeError
      | Missing \<Rightarrow> throw TypeError)"

section \<open>Sending\<close>

text \<open>\<^verbatim>\<open>WebSocket | WebSocket[]\<close>\<close>

datatype targets = Single socket | Several "socket list"

text \<open>\<^verbatim>\<open>new Set(xs)\<close>: the elements of \<open>xs\<close> in the order of their first occurrence.\<close>

definition Set_add :: "'a list \<Rightarrow> 'a \<Rightarrow> 'a list" where
  "Set_add s x = (if x \<in> set s then s else s @ [x])"

definition new_Set :: "'a list \<Rightarrow> 'a list" where
  "new_Set xs = foldl Set_add [] xs"

fun forEach :: "'a list \<Rightarrow> ('a \<Rightarrow> unit run) \<Rightarrow> unit run" where
  "forEach [] f = return ()"
| "forEach (x # xs) f = and_then (f x) (\<lambda>_. forEach xs f)"

text \<open>\<^verbatim>\<open>socket.send(text)\<close> hands the text to the endpoint and returns.\<close>

definition socket_send :: "socket \<Rightarrow> jsvalue \<Rightarrow> unit run" where
  "socket_send socket text = ([SocketSend socket text], Returns ())"

text \<open>\<^verbatim>\<open>Array.isArray(to) ? to : [to]\<close>\<close>

definition as_array :: "targets \<Rightarrow> socket list" where
  "as_array to = (case to of Several ss \<Rightarrow> ss | Single s \<Rightarrow> [s])"

definition emit :: "string \<Rightarrow> jsvalue \<Rightarrow> targets \<Rightarrow> unit run" where
  "emit eventID data to =
     (let sockets = new_Set (as_array to)
      in forEach sockets
           (\<lambda>socket. socket_send socket
              (JSON_stringify (JObject [(''event'', JString eventID), (''data'', data)]))))"

text \<open>
  The objects of closures that \<^verbatim>\<open>send\<close>, \<^verbatim>\<open>sendData\<close> and \<^verbatim>\<open>sendDataTo\<close> return:
  \<open>send_data\<close> is the member \<^verbatim>\<open>data\<close> of what \<^verbatim>\<open>send\<close> returns, and so on.
\<close>

record sendDataTo_object =
  sendDataTo_emit :: "unit run"

record sendData_object =
  sendData_to :: "targets \<Rightarrow> sendDataTo_object run"
  sendData_object :: "jsvalue run"
  sendData_stringify :: "jsvalue run"

record send_object =
  send_data :: "jsvalue \<Rightarrow> sendData_object run"

definition sendDataTo ::
  "validators \<Rightarrow> string \<Rightarrow> jsvalue \<Rightarrow> targets \<Rightarrow> sendDataTo_object run" where
  "sendDataTo validators event data to =
     return \<lparr>sendDataTo_emit = and_then (emit event data to) (\<lambda>_. return ())\<rparr>"

definition sendData :: "validators \<Rightarrow> string \<Rightarrow> jsvalue \<Rightarrow> sendData_object run" where
  "sendData validators event data =
     return \<lparr>sendData_to = (\<lambda>to. sendDataTo validators event data to),
           sendData_object = return (JObject [(''event'', JString event), (''data'', data)]),
           sendData_stringify =
             return (JSON_stringify (JObject [(''event'', JString event), (''data'', data)]))\<rparr>"

definition send :: "validators \<Rightarrow> string \<Rightarrow> send_object run" where
  "send validators event = return \<lparr>send_data = (\<lambda>data. sendData validators event data)\<rparr>"

section \<open>Receiving\<close>

text \<open>
  \<^verbatim>\<open>on\<close> maps the own keys of the handler object to their values, a value being a
  function or \<^verbatim>\<open>undefined\<close>. \<^verbatim>\<open>config\<close> is the second argument of \<^verbatim>\<open>receiver\<close>,
  \<^verbatim>\<open>{}\<close> by default.
\<close>

type_synonym handlers = "string \<rightharpoonup> callback option"

record error_hooks =
  onPayloadIsNonJSON :: "callback option"
  onMalformedJSON :: "callback option"
  onUnrecognisedEvent :: "callback option"
  onInvalidPayload :: "callback option"

record config =
  errors :: "error_hooks option"

text \<open>\<^verbatim>\<open>config.errors?.hook\<close>\<close>

definition hook :: "(error_hooks \<Rightarrow> callback option) \<Rightarrow> config \<Rightarrow> callback option" where
  "hook sel config = (case errors config of None \<Rightarrow> None | Some hooks \<Rightarrow> sel hooks)"

text \<open>\<^verbatim>\<open>Object.keys(on).includes(key)\<close>: \<^verbatim>\<open>includes\<close> compares without conversion.\<close>

definition keys_includes :: "handlers \<Rightarrow> jsvalue \<Rightarrow> bool" where
  "keys_includes on key =
     (case key of
        JString k \<Rightarrow> (case on k of None \<Rightarrow> False | Some h \<Rightarrow> True)
      | _ \<Rightarrow> False)"

text \<open>\<^verbatim>\<open>on[key]\<close>, read where \<^verbatim>\<open>key\<close> is an own key of \<^verbatim>\<open>on\<close>.\<close>

definition on_get :: "handlers \<Rightarrow> jsvalue \<Rightarrow> callback option" where
  "on_get on key = (case on (to_string key) of None \<Rightarrow> None | Some h \<Rightarrow> h)"

text \<open>
  The callback that \<^verbatim>\<open>receiver(on, config)\<close> returns, applied to
  \<^verbatim>\<open>incomingMessageString\<close>. The first argument of \<open>try_catch\<close> is the body of the
  outer \<^verbatim>\<open>try\<close>, the second its \<^verbatim>\<open>catch\<close>. The properties \<^verbatim>\<open>json.event\<close> and
  \<^verbatim>\<open>json.data\<close> are read once, at their first use: a later read yields the same
  value, and only the first read can throw.
\<close>

definition receiver :: "validators \<Rightarrow> handlers \<Rightarrow> config \<Rightarrow> string \<Rightarrow> jsvalue run" where
  "receiver validators on config incomingMessageString =
     try_catch
       (and_then (expr (JSON_parse incomingMessageString)) (\<lambda>json.
        and_then (expr (get_property json ''event'')) (\<lambda>event.
        and_then (expr (get_property json ''data'')) (\<lambda>data.
        and_then
          (if \<not> truthy event \<or> \<not> truthy data \<or> typeof event \<noteq> ''string''
           then invoke MalformedJSON (hook onMalformedJSON config) json
           else return ()) (\<lambda>_.
        and_then
          (if \<not> member_truthy (validators_get validators event)
           then invoke UnrecognisedEvent (hook onUnrecognisedEvent config)
                  (JObject [(''event'', event), (''payload'', data)])
           else return ()) (\<lambda>_.
        if \<not> keys_includes on event then return JUndefined
        else
          and_then
            (try_catch
               (and_then (validators_parse validators event data) (\<lambda>_. return ()))
               (\<lambda>e. if e = ZodError
                    then invoke InvalidPayload (hook onInvalidPayload config)
                           (JObject [(''event'', event), (''payload'', data)])
                    else throw e)) (\<lambda>_.
          and_then (invoke (HandlerCall (to_string event)) (on_get on event) data) (\<lambda>_.
          return JUndefined))))))))
       (\<lambda>e. if e = SyntaxError
            then and_then
                   (invoke PayloadIsNonJSON (hook onPayloadIsNonJSON config)
                      (JString incomingMessageString)) (\<lambda>_.
                 return JUndefined)
            else throw e)"

section \<open>Validators of the examples\<close>

text \<open>
  \<^verbatim>\<open>z.string().parse\<close> returns its argument where it is a string and throws a
  ZodError otherwise; \<^verbatim>\<open>z.number()\<close> and \<^verbatim>\<open>z.boolean()\<close> likewise. The last one is
  \<^verbatim>\<open>z.string().transform((s) => s + "!")\<close>, whose parsed value is not its argument.
\<close>

definition z_string :: validator where
  "z_string v = (case v of JString s \<Rightarrow> Returns v | _ \<Rightarrow> Throws ZodError)"

definition z_number :: validator where
  "z_number v = (case v of JNumber m e \<Rightarrow> Returns v | _ \<Rightarrow> Throws ZodError)"

definition z_boolean :: validator where
  "z_boolean v = (case v of JBool b \<Rightarrow> Returns v | _ \<Rightarrow> Throws ZodError)"

definition z_string_transform :: validator where
  "z_string_transform v =
     (case v of JString s \<Rightarrow> Returns (JString (s @ ''!'')) | _ \<Rightarrow> Throws ZodError)"

section \<open>Calls and what they are observed to do\<close>

text \<open>
  The chains of calls \<^verbatim>\<open>send(event).data(data).object()\<close>,
  \<^verbatim>\<open>send(event).data(data).stringify()\<close>, \<^verbatim>\<open>send(event).data(data).to(to)\<close> and
  \<^verbatim>\<open>send(event).data(data).to(to).emit()\<close>.
\<close>

definition send_data_object :: "validators \<Rightarrow> string \<Rightarrow> jsvalue \<Rightarrow> jsvalue run" where
  "send_data_object validators event data =
     and_then (send validators event) (\<lambda>a.
     and_then (send_data a data) (\<lambda>b.
     sendData_object b))"

definition send_data_stringify :: "validators \<Rightarrow> string \<Rightarrow> jsvalue \<Rightarrow> jsvalue run" where
  "send_data_stringify validators event data =
     and_then (send validators event) (\<lambda>a.
     and_then (send_data a data) (\<lambda>b.
     sendData_stringify b))"

definition send_data_to ::
  "validators \<Rightarrow> string \<Rightarrow> jsvalue \<Rightarrow> targets \<Rightarrow> sendDataTo_object run" where
  "send_data_to validators event data to =
     and_then (send validators event) (\<lambda>a.
     and_then (send_data a data) (\<lambda>b.
     sendData_to b to))"

definition send_data_to_emit ::
  "validators \<Rightarrow> string \<Rightarrow> jsvalue \<Rightarrow> targets \<Rightarrow> unit run" where
  "send_data_to_emit validators event data to =
     and_then (send_data_to validators event data to) (\<lambda>c. sendDataTo_emit c)"




fun handler_calls :: "effect list \<Rightarrow> (string \<times> jsvalue) list" where
  "handler_calls [] = []"
| "handler_calls (HandlerCall k v # es) = (k, v) # handler_calls es"
| "handler_calls (x # es) = handler_calls es"

fun hook_calls :: "effect list \<Rightarrow> effect list" where
  "hook_calls [] = []"
| "hook_calls (SocketSend s t # es) = hook_calls es"
| "hook_calls (ValidatorParse k v # es) = hook_calls es"
| "hook_calls (HandlerCall k v # es) = hook_calls es"
| "hook_calls (x # es) = x # hook_calls es"

text \<open>
  The schema whose validators accept and reject what those of \<open>validators\<close> do, and
  return \<open>g\<close> of what they return.
\<close>

definition map_output :: "(jsvalue \<Rightarrow> jsvalue) \<Rightarrow> validators \<Rightarrow> validators" where
  "map_output g validators =
     (\<lambda>k. case validators k of
            None \<Rightarrow> None
          | Some p \<Rightarrow>
              Some (\<lambda>x. case p x of Returns y \<Rightarrow> Returns (g y) | Throws e \<Rightarrow> Throws e))"

text \<open>A callback that returns, and a configuration with such a callback at every hook.\<close>

definition returning :: callback where
  "returning v = None"

definition all_hooks :: config where
  "all_hooks =
     \<lparr>errors = Some \<lparr>onPayloadIsNonJSON = Some returning, onMalformedJSON = Some returning,
                     onUnrecognisedEvent = Some returning, onInvalidPayload = Some returning\<rparr>\<rparr>"

definition no_hooks :: config where
  "no_hooks = \<lparr>errors = None\<rparr>"

section \<open>Lemmas\<close>

lemma snd_and_then:
  "snd (and_then m f) = (case snd m of Throws e \<Rightarrow> Throws e | Returns v \<Rightarrow> snd (f v))"
  by (simp add: and_then_def split: completion.splits)

lemma fst_and_then:
  "fst (and_then m f) = (case snd m of Throws e \<Rightarrow> fst m | Returns v \<Rightarrow> fst m @ fst (f v))"
  by (simp add: and_then_def split: completion.splits)

lemma snd_try_catch:
  "snd (try_catch m h) = (case snd m of Returns v \<Rightarrow> Returns v | Throws e \<Rightarrow> snd (h e))"
  by (simp add: try_catch_def split: completion.splits)

lemma fst_try_catch:
  "fst (try_catch m h) = (case snd m of Returns v \<Rightarrow> fst m | Throws e \<Rightarrow> fst m @ fst (h e))"
  by (simp add: try_catch_def split: completion.splits)

lemma handler_calls_append: "handler_calls (xs @ ys) = handler_calls xs @ handler_calls ys"
  by (induction xs rule: handler_calls.induct) simp_all

lemma parse_message_hi:
  \<open>JSON_parse ''{"event":"message","data":"hi"}'' =
     Returns (JObject [(''event'', JString ''message''), (''data'', JString ''hi'')])\<close>
  by code_simp

lemma parse_null: "JSON_parse ''null'' = Returns JNull"
  by code_simp

lemma parse_message_5:
  \<open>JSON_parse ''{"event":"message","data":5}'' =
     Returns (JObject [(''event'', JString ''message''), (''data'', JNumber 5 0)])\<close>
  by code_simp

lemma parse_message_empty:
  \<open>JSON_parse ''{"event":"message","data":""}'' =
     Returns (JObject [(''event'', JString ''message''), (''data'', JString [])])\<close>
  by code_simp

lemma parse_heartbeat_0:
  \<open>JSON_parse ''{"event":"heartbeat","data":0}'' =
     Returns (JObject [(''event'', JString ''heartbeat''), (''data'', JNumber 0 0)])\<close>
  by code_simp

lemma parse_heartbeat_false:
  \<open>JSON_parse ''{"event":"heartbeat","data":false}'' =
     Returns (JObject [(''event'', JString ''heartbeat''), (''data'', JBool False)])\<close>
  by code_simp

lemma parse_ping:
  \<open>JSON_parse ''{"event":"ping"}'' = Returns (JObject [(''event'', JString ''ping'')])\<close>
  by code_simp

lemma parse_not_json: "JSON_parse ''not json'' = Throws SyntaxError"
  by code_simp

lemmas run_simps =
  fst_and_then snd_and_then fst_try_catch snd_try_catch return_def throw_def expr_def invoke_def
  hook_def
  validators_get_def validators_parse_def keys_includes_def on_get_def





lemma forEach_socket_send:
  "forEach xs (\<lambda>socket. socket_send socket t) = (map (\<lambda>s. SocketSend s t) xs, Returns ())"
  by (induction xs) (simp_all add: return_def and_then_def socket_send_def)


lemma send_data_to_emit_eq:
  "send_data_to_emit validators event data to =
     (map (\<lambda>s. SocketSend s
              (JSON_stringify (JObject [(''event'', JString event), (''data'', data)])))
        (new_Set (as_array to)), Returns ())"
  by (simp add: send_data_to_emit_def send_data_to_def send_def sendData_def sendDataTo_def
      emit_def and_then_def return_def forEach_socket_send)

lemma invoke_HandlerCall:
  "HandlerCall k v \<in> set (fst (invoke tag f arg)) \<Longrightarrow> tag arg = HandlerCall k v"
  by (simp add: invoke_def return_def split: option.splits)

lemma validators_parse_no_HandlerCall:
  "HandlerCall k v \<notin> set (fst (validators_parse validators event data))"
  by (simp add: validators_parse_def throw_def split: member.splits)

lemma keys_includes_JString: "keys_includes on event \<Longrightarrow> event = JString (to_string event)"
  by (simp add: keys_includes_def split: jsvalue.splits)

lemma member_truthy_map_output:
  "member_truthy (validators_get (map_output g validators) key) =
   member_truthy (validators_get validators key)"
  by (simp add: validators_get_def map_output_def split: option.splits)

lemma validators_parse_map_output:
  "and_then (validators_parse (map_output g validators) key data) (\<lambda>_. return ()) =
   and_then (validators_parse validators key data) (\<lambda>_. return ())"
  by (simp add: validators_parse_def validators_get_def map_output_def and_then_def return_def
      throw_def split: option.splits completion.splits)

section \<open>The claims\<close>

text \<open>
  C1. Validator gating: the claim is that a payload that fails the validator of its
  event never reaches the handler of that event. The code calls the hook
  \<^verbatim>\<open>onInvalidPayload\<close> and then goes on to the handler: for the schema
  \<^verbatim>\<open>{message: z.string()}\<close> and the message \<^verbatim>\<open>{"event":"message","data":5}\<close>, whose
  payload the validator rejects, every handler \<open>h\<close> for \<^verbatim>\<open>message\<close> is invoked once,
  with 5.
\<close>

theorem invalid_payload_reaches_handler:
  \<open>z_string (JNumber 5 0) = Throws ZodError
   \<and> handler_calls
        (fst (receiver [''message'' \<mapsto> z_string] [''message'' \<mapsto> Some h] all_hooks
                ''{"event":"message","data":5}'')) =
      [(''message'', JNumber 5 0)]\<close>
  by (simp add: receiver_def parse_message_5 run_simps all_hooks_def returning_def z_string_def
      handler_calls_append split: completion.splits option.splits)

theorem invalid_payload_reaches_handler_witness:
  \<open>z_string (JNumber 5 0) = Throws ZodError
   \<and> handler_calls
        (fst (receiver [''message'' \<mapsto> z_string] [''message'' \<mapsto> Some returning] all_hooks
                ''{"event":"message","data":5}'')) =
      [(''message'', JNumber 5 0)]
   \<and> receiver [''message'' \<mapsto> z_string] [''message'' \<mapsto> Some returning] all_hooks
        ''{"event":"message","data":5}'' =
      ([ValidatorParse ''message'' (JNumber 5 0),
        InvalidPayload (JObject [(''event'', JString ''message''), (''payload'', JNumber 5 0)]),
        HandlerCall ''message'' (JNumber 5 0)],
       Returns JUndefined)\<close>
  using invalid_payload_reaches_handler [of returning]
  by (simp add: prod_eq_iff receiver_def parse_message_5 run_simps all_hooks_def returning_def
      z_string_def)

text \<open>
  C2. Exception containment: the claim is that no exception that arises from
  decoding, shape checking, event recognition or payload validation escapes the
  callable, and that a receiver without hooks returns for every string. The message
  \<^verbatim>\<open>null\<close> is JSON; reading \<^verbatim>\<open>json.event\<close> of it throws a TypeError, which the
  \<^verbatim>\<open>catch\<close> throws again: for every schema, handlers and hooks the call throws.
\<close>

theorem null_message_throws:
  "receiver validators on config ''null'' = ([], Throws TypeError)"
  by (simp add: receiver_def parse_null expr_def and_then_def try_catch_def throw_def)

theorem null_message_throws_witness:
  "receiver Map.empty Map.empty no_hooks ''null'' = ([], Throws TypeError)"
  using null_message_throws [of Map.empty Map.empty no_hooks] by simp

text \<open>
  C3. Terminal failure categories: the claim is that a message classified as
  malformed, or as naming an unrecognised event, is processed no further. After the
  hook \<^verbatim>\<open>onMalformedJSON\<close> the code goes on: the message
  \<^verbatim>\<open>{"event":"message","data":""}\<close> is reported as malformed, and then its payload is
  validated and its handler invoked, whatever the other hooks are.
\<close>

theorem malformed_is_not_terminal:
  \<open>receiver [''message'' \<mapsto> z_string] [''message'' \<mapsto> Some returning]
      \<lparr>errors = Some \<lparr>onPayloadIsNonJSON = p, onMalformedJSON = Some returning,
                      onUnrecognisedEvent = u, onInvalidPayload = i\<rparr>\<rparr>
      ''{"event":"message","data":""}'' =
    ([MalformedJSON (JObject [(''event'', JString ''message''), (''data'', JString [])]),
      ValidatorParse ''message'' (JString []),
      HandlerCall ''message'' (JString [])],
     Returns JUndefined)\<close>
  by (simp add: prod_eq_iff receiver_def parse_message_empty run_simps returning_def z_string_def)

theorem malformed_is_not_terminal_witness:
  \<open>receiver [''message'' \<mapsto> z_string] [''message'' \<mapsto> Some returning]
      \<lparr>errors = Some \<lparr>onPayloadIsNonJSON = None, onMalformedJSON = Some returning,
                      onUnrecognisedEvent = None, onInvalidPayload = None\<rparr>\<rparr>
      ''{"event":"message","data":""}'' =
    ([MalformedJSON (JObject [(''event'', JString ''message''), (''data'', JString [])]),
      ValidatorParse ''message'' (JString []),
      HandlerCall ''message'' (JString [])],
     Returns JUndefined)\<close>
  using malformed_is_not_terminal [of None None None] by simp

text \<open>
  C4. Presence, not truthiness: the claim is that a message with a string
  \<^verbatim>\<open>event\<close> and a falsy \<^verbatim>\<open>data\<close> is not classified as malformed, and that its
  handler is invoked where the validator accepts the payload. The code tests
  \<^verbatim>\<open>!json.data\<close>: the messages \<^verbatim>\<open>{"event":"heartbeat","data":0}\<close> and
  \<^verbatim>\<open>{"event":"heartbeat","data":false}\<close>, whose payloads the validators accept, are
  reported to \<^verbatim>\<open>onMalformedJSON\<close>; the handler is invoked all the same.
\<close>

theorem falsy_data_is_malformed:
  \<open>z_number (JNumber 0 0) = Returns (JNumber 0 0)
   \<and> receiver [''heartbeat'' \<mapsto> z_number] [''heartbeat'' \<mapsto> Some returning]
      \<lparr>errors = Some \<lparr>onPayloadIsNonJSON = p, onMalformedJSON = Some returning,
                      onUnrecognisedEvent = u, onInvalidPayload = i\<rparr>\<rparr>
      ''{"event":"heartbeat","data":0}'' =
    ([MalformedJSON (JObject [(''event'', JString ''heartbeat''), (''data'', JNumber 0 0)]),
      ValidatorParse ''heartbeat'' (JNumber 0 0),
      HandlerCall ''heartbeat'' (JNumber 0 0)],
     Returns JUndefined)
   \<and> z_boolean (JBool False) = Returns (JBool False)
   \<and> receiver [''heartbeat'' \<mapsto> z_boolean] [''heartbeat'' \<mapsto> Some returning]
      \<lparr>errors = Some \<lparr>onPayloadIsNonJSON = p, onMalformedJSON = Some returning,
                      onUnrecognisedEvent = u, onInvalidPayload = i\<rparr>\<rparr>
      ''{"event":"heartbeat","data":false}'' =
    ([MalformedJSON (JObject [(''event'', JString ''heartbeat''), (''data'', JBool False)]),
      ValidatorParse ''heartbeat'' (JBool False),
      HandlerCall ''heartbeat'' (JBool False)],
     Returns JUndefined)\<close>
  by (simp add: prod_eq_iff receiver_def parse_heartbeat_0 parse_heartbeat_false run_simps
      returning_def z_number_def z_boolean_def)

theorem falsy_data_is_malformed_witness:
  \<open>receiver [''heartbeat'' \<mapsto> z_number] [''heartbeat'' \<mapsto> Some returning]
      \<lparr>errors = Some \<lparr>onPayloadIsNonJSON = None, onMalformedJSON = Some returning,
                      onUnrecognisedEvent = None, onInvalidPayload = None\<rparr>\<rparr>
      ''{"event":"heartbeat","data":0}'' =
    ([MalformedJSON (JObject [(''event'', JString ''heartbeat''), (''data'', JNumber 0 0)]),
      ValidatorParse ''heartbeat'' (JNumber 0 0),
      HandlerCall ''heartbeat'' (JNumber 0 0)],
     Returns JUndefined)\<close>
  using falsy_data_is_malformed [of None None None] by simp

text \<open>
  C5. At most one failure category for a message: the claim is that one call of the
  callable invokes at most one of the four hooks. The message \<^verbatim>\<open>{"event":"ping"}\<close>,
  which has no \<^verbatim>\<open>data\<close> and names an event that the schema does not have, is
  reported to \<^verbatim>\<open>onMalformedJSON\<close> and then to \<^verbatim>\<open>onUnrecognisedEvent\<close>.
\<close>

theorem two_hooks_for_one_message:
  \<open>receiver [''message'' \<mapsto> z_string] [''message'' \<mapsto> Some returning]
      \<lparr>errors = Some \<lparr>onPayloadIsNonJSON = p, onMalformedJSON = Some returning,
                      onUnrecognisedEvent = Some returning, onInvalidPayload = i\<rparr>\<rparr>
      ''{"event":"ping"}'' =
    ([MalformedJSON (JObject [(''event'', JString ''ping'')]),
      UnrecognisedEvent (JObject [(''event'', JString ''ping''), (''payload'', JUndefined)])],
     Returns JUndefined)\<close>
  by (simp add: prod_eq_iff receiver_def parse_ping run_simps returning_def z_string_def
      Object_prototype_def)

theorem two_hooks_for_one_message_witness:
  \<open>hook_calls
      (fst (receiver [''message'' \<mapsto> z_string] [''message'' \<mapsto> Some returning]
              \<lparr>errors = Some \<lparr>onPayloadIsNonJSON = None, onMalformedJSON = Some returning,
                              onUnrecognisedEvent = Some returning,
                              onInvalidPayload = None\<rparr>\<rparr>
              ''{"event":"ping"}'')) =
    [MalformedJSON (JObject [(''event'', JString ''ping'')]),
     UnrecognisedEvent (JObject [(''event'', JString ''ping''), (''payload'', JUndefined)])]\<close>
  using two_hooks_for_one_message [of None None] by simp

text \<open>
  C6. Round trip: for the schema \<^verbatim>\<open>{message: string}\<close>,
  \<^verbatim>\<open>send("message").data("hi").stringify()\<close> returns exactly the string
  \<^verbatim>\<open>{"event":"message","data":"hi"}\<close>, and a receiver constructed with a handler
  \<open>h\<close> for \<^verbatim>\<open>message\<close>, given that string, invokes \<open>h\<close> with \<^verbatim>\<open>"hi"\<close> exactly once.
  This holds for every handler and every configuration of hooks.
\<close>

theorem round_trip_message_hi:
  \<open>send_data_stringify [''message'' \<mapsto> z_string] ''message'' (JString ''hi'') =
      ([], Returns (JString ''{"event":"message","data":"hi"}''))
   \<and> handler_calls
        (fst (receiver [''message'' \<mapsto> z_string] [''message'' \<mapsto> Some h] config
                ''{"event":"message","data":"hi"}'')) =
      [(''message'', JString ''hi'')]\<close>
proof
  show \<open>send_data_stringify [''message'' \<mapsto> z_string] ''message'' (JString ''hi'') =
      ([], Returns (JString ''{"event":"message","data":"hi"}''))\<close>
    by (simp add: send_data_stringify_def send_def sendData_def and_then_def return_def
        JSON_stringify_def quote_def escape_char_def)
  show \<open>handler_calls
        (fst (receiver [''message'' \<mapsto> z_string] [''message'' \<mapsto> Some h] config
                ''{"event":"message","data":"hi"}'')) =
      [(''message'', JString ''hi'')]\<close>
    by (simp add: receiver_def parse_message_hi run_simps z_string_def handler_calls_append
        split: completion.splits option.splits)
qed

theorem round_trip_message_hi_witness:
  \<open>send_data_stringify [''message'' \<mapsto> z_string] ''message'' (JString ''hi'') =
      ([], Returns (JString ''{"event":"message","data":"hi"}''))
   \<and> handler_calls
        (fst (receiver [''message'' \<mapsto> z_string] [''message'' \<mapsto> Some returning] all_hooks
                ''{"event":"message","data":"hi"}'')) =
      [(''message'', JString ''hi'')]\<close>
  using round_trip_message_hi [of returning all_hooks] by simp




text \<open>
  C8. Pure send path: for every event and payload, no call of the outbound builder
  invokes a validator, and \<^verbatim>\<open>send(event)\<close>, \<^verbatim>\<open>.data(data)\<close>, \<^verbatim>\<open>.object()\<close>,
  \<^verbatim>\<open>.stringify()\<close> and \<^verbatim>\<open>.to(to)\<close> have no effect at all; the effects of
  \<^verbatim>\<open>.emit()\<close> are writes to sockets only. What the builder returns and does is the
  same for every schema, be the event in it or not, and be the payload valid or not.
\<close>

theorem send_path_pure:
  "fst (and_then (send validators event) (\<lambda>a. send_data a data)) = []
   \<and> fst (send_data_object validators event data) = []
   \<and> fst (send_data_stringify validators event data) = []
   \<and> fst (send_data_to validators event data to) = []
   \<and> (\<forall>x \<in> set (fst (send_data_to_emit validators event data to)). \<exists>s t. x = SocketSend s t)
   \<and> (\<forall>k v. ValidatorParse k v \<notin> set (fst (send_data_to_emit validators event data to)))
   \<and> send_data_object validators event data = send_data_object validators' event data
   \<and> send_data_stringify validators event data = send_data_stringify validators' event data
   \<and> send_data_to_emit validators event data to = send_data_to_emit validators' event data to"
  by (auto simp: send_data_to_emit_eq send_data_object_def send_data_stringify_def
      send_data_to_def send_def sendData_def sendDataTo_def and_then_def return_def)

theorem send_path_pure_witness:
  \<open>z_string (JNumber 5 0) = Throws ZodError
   \<and> fst (and_then (send [''message'' \<mapsto> z_string] ''message'')
             (\<lambda>a. send_data a (JNumber 5 0))) = []
   \<and> send_data_object [''message'' \<mapsto> z_string] ''message'' (JNumber 5 0) =
       ([], Returns (JObject [(''event'', JString ''message''), (''data'', JNumber 5 0)]))
   \<and> send_data_stringify [''message'' \<mapsto> z_string] ''message'' (JNumber 5 0) =
       ([], Returns (JString ''{"event":"message","data":5}''))
   \<and> fst (send_data_to [''message'' \<mapsto> z_string] ''message'' (JNumber 5 0) (Single 7)) = []
   \<and> fst (send_data_to_emit [''message'' \<mapsto> z_string] ''message'' (JNumber 5 0) (Single 7)) =
       [SocketSend 7 (JString ''{"event":"message","data":5}'')]\<close>
  using send_path_pure [of "[''message'' \<mapsto> z_string]" "''message''" "JNumber 5 0" "Single 7"
      Map.empty]
  by (simp add: z_string_def send_data_to_emit_eq send_data_object_def send_data_stringify_def
      send_def sendData_def and_then_def return_def as_array_def new_Set_def Set_add_def
      JSON_stringify_def quote_def escape_char_def number_to_string_def hex_char_def)

text \<open>
  C9. Receiver result value: the claim is that the callable produced by
  \<^verbatim>\<open>receiver\<close> returns a result that describes what happened. It does not: a message
  that is not JSON and a message that is dispatched to its handler give the same
  result, \<^verbatim>\<open>undefined\<close>.
\<close>

theorem receiver_result_counterexample:
  \<open>receiver [''message'' \<mapsto> z_string] [''message'' \<mapsto> Some returning] all_hooks ''not json'' =
      ([PayloadIsNonJSON (JString ''not json'')], Returns JUndefined)
   \<and> receiver [''message'' \<mapsto> z_string] [''message'' \<mapsto> Some returning] all_hooks
        ''{"event":"message","data":"hi"}'' =
      ([ValidatorParse ''message'' (JString ''hi''), HandlerCall ''message'' (JString ''hi'')],
       Returns JUndefined)\<close>
  by code_simp

text \<open>
  C9, as amended: the callable produced by \<^verbatim>\<open>receiver\<close> returns no result; for every
  schema, handlers, hooks and message, whenever it returns it returns \<^verbatim>\<open>undefined\<close>.
  What happened shows only in the calls of the handler and of the hooks.
\<close>

theorem receiver_returns_undefined:
  "snd (receiver validators on config incomingMessageString) = Returns v \<Longrightarrow> v = JUndefined"
  by (auto simp: receiver_def expr_def snd_and_then snd_try_catch return_def throw_def
      split: completion.splits if_splits)

theorem receiver_returns_undefined_witness:
  \<open>snd (receiver [''message'' \<mapsto> z_string] [''message'' \<mapsto> Some returning] all_hooks
          ''{"event":"message","data":"hi"}'') = Returns JUndefined\<close>
proof -
  have \<open>\<exists>v. snd (receiver [''message'' \<mapsto> z_string] [''message'' \<mapsto> Some returning]
                 all_hooks ''{"event":"message","data":"hi"}'') = Returns v\<close>
    by (simp add: receiver_def parse_message_hi run_simps all_hooks_def returning_def
        z_string_def)
  then obtain v where v:
    \<open>snd (receiver [''message'' \<mapsto> z_string] [''message'' \<mapsto> Some returning] all_hooks
            ''{"event":"message","data":"hi"}'') = Returns v\<close> ..
  from receiver_returns_undefined [OF v] v show ?thesis by simp
qed

text \<open>
  C10. When the receiver dispatches, the handler is invoked with the raw \<^verbatim>\<open>data\<close>
  of the decoded message, under the event name of the decoded message, and not with
  what the validator's \<^verbatim>\<open>parse\<close> returned: every call of a handler that the
  receiver makes has as its argument the \<^verbatim>\<open>data\<close> property of the value that
  \<^verbatim>\<open>JSON.parse\<close> returned, and changing what the validators return, by any
  function \<open>g\<close>, changes nothing of what the receiver does.
\<close>

theorem handler_gets_raw_data:
  "(\<forall>k v. HandlerCall k v \<in> set (fst (receiver validators on config incomingMessageString)) \<longrightarrow>
      (\<exists>json. JSON_parse incomingMessageString = Returns json
         \<and> get_property json ''event'' = Returns (JString k)
         \<and> get_property json ''data'' = Returns v))
   \<and> receiver (map_output g validators) on config incomingMessageString =
       receiver validators on config incomingMessageString"
proof (intro conjI allI impI)
  fix k v
  assume "HandlerCall k v \<in> set (fst (receiver validators on config incomingMessageString))"
  then show "\<exists>json. JSON_parse incomingMessageString = Returns json
      \<and> get_property json ''event'' = Returns (JString k)
      \<and> get_property json ''data'' = Returns v"
    by (auto simp: receiver_def expr_def fst_and_then snd_and_then fst_try_catch snd_try_catch
          return_def throw_def validators_parse_no_HandlerCall
        split: completion.splits if_splits
        dest!: invoke_HandlerCall dest: keys_includes_JString)
next
  show "receiver (map_output g validators) on config incomingMessageString =
      receiver validators on config incomingMessageString"
    by (simp add: receiver_def member_truthy_map_output validators_parse_map_output
        cong: if_cong)
qed

theorem handler_gets_raw_data_witness:
  \<open>z_string_transform (JString ''hi'') = Returns (JString ''hi!'')
   \<and> HandlerCall ''message'' (JString ''hi'')
        \<in> set (fst (receiver [''message'' \<mapsto> z_string_transform]
                      [''message'' \<mapsto> Some returning] all_hooks
                      ''{"event":"message","data":"hi"}''))
   \<and> (\<exists>json. JSON_parse ''{"event":"message","data":"hi"}'' = Returns json
        \<and> get_property json ''event'' = Returns (JString ''message'')
        \<and> get_property json ''data'' = Returns (JString ''hi''))
   \<and> receiver (map_output (\<lambda>y. JNull) [''message'' \<mapsto> z_string_transform])
        [''message'' \<mapsto> Some returning] all_hooks ''{"event":"message","data":"hi"}'' =
       receiver [''message'' \<mapsto> z_string_transform]
        [''message'' \<mapsto> Some returning] all_hooks ''{"event":"message","data":"hi"}''\<close>
proof -
  have h: \<open>HandlerCall ''message'' (JString ''hi'')
        \<in> set (fst (receiver [''message'' \<mapsto> z_string_transform]
                      [''message'' \<mapsto> Some returning] all_hooks
                      ''{"event":"message","data":"hi"}''))\<close>
    by (simp add: receiver_def parse_message_hi run_simps all_hooks_def returning_def
        z_string_transform_def)
  from handler_gets_raw_data
         [of "[''message'' \<mapsto> z_string_transform]" "[''message'' \<mapsto> Some returning]"
             all_hooks \<open>''{"event":"message","data":"hi"}''\<close> "\<lambda>y. JNull"]
       h
  show ?thesis
    by (simp add: z_string_transform_def)
qed

end
